theory Spec2Isabelle
  imports Complex_Main "HOL-Library.Sublist" "HOL-Library.AList"
begin

section \<open>Numbers, strings and dictionaries of the Python source\<close>

text \<open>
  Python's \<open>int\<close> is unbounded and is \<^typ>\<open>int\<close> here. A quantity that the source may hold
  as a \<open>float\<close> (health after a 1.2 multiplier, gold after a 10 percent loss, every damage
  value) is a \<^typ>\<open>real\<close>: the arithmetic is exact, the rounding of binary floating point is
  not modelled. An attribute that only ever receives integers keeps the type \<^typ>\<open>int\<close>.

  The reward computation of \<open>_handle_victory\<close> is the exception. It multiplies floats and cuts
  the product with \<open>int\<close>, and there the rounding of a product decides the integer (the float
  product \<open>75 * 1.2 * 1.4\<close> is just below 126). Its operations round as Python's do:
  \<open>fl\<close> below is the rounding of IEEE 754 binary64, to the nearest value with a 53-bit
  significand, a tie going to the even one. The exponent range of the format (overflow,
  subnormal numbers) is not modelled.
\<close>

definition py_int :: "real \<Rightarrow> int" where
  \<comment> \<open>Python's \<open>int(x)\<close> on a number: truncation toward zero.\<close>
  "py_int x = (if 0 \<le> x then \<lfloor>x\<rfloor> else \<lceil>x\<rceil>)"

definition round_half_even :: "real \<Rightarrow> int" where
  "round_half_even x =
    (let f = \<lfloor>x\<rfloor>; d = x - of_int f
     in if d < 1/2 then f else if d > 1/2 then f + 1 else if even f then f else f + 1)"

definition fl :: "real \<Rightarrow> real" where
  \<comment> \<open>The double nearest to \<open>x\<close>: with \<open>2 ^ e \<le> |x| < 2 ^ (e + 1)\<close> the doubles around \<open>x\<close>
      are the multiples of \<open>2 ^ (e - 52)\<close>.\<close>
  "fl x =
    (if x = 0 then 0
     else (let u = 2 powr (of_int \<lfloor>log 2 \<bar>x\<bar>\<rfloor> - 52)
           in of_int (round_half_even (x / u)) * u))"

definition float_of_int :: "int \<Rightarrow> real" where
  \<comment> \<open>The conversion of an \<open>int\<close> operand that meets a \<open>float\<close> operand.\<close>
  "float_of_int n = fl (of_int n)"

definition float_mul :: "real \<Rightarrow> real \<Rightarrow> real" where
  "float_mul a b = fl (a * b)"

definition float_add :: "real \<Rightarrow> real \<Rightarrow> real" where
  "float_add a b = fl (a + b)"

definition dict_get :: "('k \<times> 'v) list \<Rightarrow> 'k \<Rightarrow> 'v \<Rightarrow> 'v" where
  \<comment> \<open>\<open>d.get(k, default)\<close> on a dictionary kept as an association list.\<close>
  "dict_get d k dflt = (case map_of d k of None \<Rightarrow> dflt | Some v \<Rightarrow> v)"

definition str_in :: "string \<Rightarrow> string \<Rightarrow> bool" where
  \<comment> \<open>\<open>sub in s\<close> on two strings: \<open>sub\<close> occurs in \<open>s\<close> as a contiguous piece.\<close>
  "str_in sub s = sublist sub s"

section \<open>config.py\<close>

definition BASE_HEALTH :: int where "BASE_HEALTH = 100"
definition BASE_ATTACK :: int where "BASE_ATTACK = 20"
definition BASE_DEFENSE :: int where "BASE_DEFENSE = 10"
definition BASE_SPEED :: int where "BASE_SPEED = 15"

text \<open>
  The bonus tables hold the numeric entries only; the flags and names the source also stores
  there (\<open>"leadership": True\<close>, \<open>"special": "Mega Blast"\<close>) are never read by the code below.
\<close>

definition COLOR_BONUSES :: "(string \<times> (string \<times> int) list) list" where
  "COLOR_BONUSES =
    [(''Red'', [(''health'', 10), (''attack'', 5)]),
     (''Blue'', [(''health'', 5), (''defense'', 5)]),
     (''Yellow'', [(''health'', 8), (''speed'', 5)]),
     (''Pink'', [(''health'', 6), (''attack'', 3)]),
     (''Black'', [(''health'', 7), (''defense'', 3)]),
     (''Green'', [(''health'', 9), (''attack'', 4)])]"

definition POWER_BONUSES :: "(string \<times> (string \<times> int) list) list" where
  "POWER_BONUSES =
    [(''Megaforce'', [(''attack'', 5)]),
     (''Super Megaforce'', [(''attack'', 8)]),
     (''Mystic Force'', [(''attack'', 6)]),
     (''Ninja Storm'', [(''speed'', 8)]),
     (''Dino Thunder'', [(''health'', 10)]),
     (''Time Force'', [(''defense'', 7)])]"

definition WEAPON_STATS :: "(string \<times> (string \<times> int) list) list" where
  "WEAPON_STATS =
    [(''Power Sword'', [(''damage'', 15), (''speed'', 0)]),
     (''Power Blaster'', [(''damage'', 12), (''speed'', 3)]),
     (''Dragon Dagger'', [(''damage'', 18), (''speed'', -2)]),
     (''Shark Fin'', [(''damage'', 20), (''speed'', -5)]),
     (''Phoenix Shot'', [(''damage'', 14), (''speed'', 2)]),
     (''Snake Axe'', [(''damage'', 22), (''speed'', -3)])]"


text \<open>\<open>ENEMY_TYPES\<close>: name, health, attack, behavior.\<close>

definition ENEMY_TYPES :: "(string \<times> (int \<times> int \<times> string)) list" where
  "ENEMY_TYPES =
    [(''Loogies'', (30, 8, ''aggressive'')),
     (''Zombats'', (25, 10, ''swarm'')),
     (''Bruisers'', (60, 15, ''tank'')),
     (''X-Borgs'', (45, 12, ''tactical''))]"

text \<open>\<open>BOSS_ENEMIES\<close>: name, health, attack, phases.\<close>

definition BOSS_ENEMIES :: "(string \<times> (int \<times> int \<times> int)) list" where
  "BOSS_ENEMIES =
    [(''Metal Alice'', (200, 25, 2)),
     (''Black Knight'', (250, 30, 3)),
     (''Emperor Mavro'', (300, 35, 3))]"

section \<open>Data model\<close>

text \<open>An entry of a \<open>status_effects\<close> list: the dictionary \<open>{"type": ..., "duration": ...}\<close>.\<close>

record status_effect =
  effect_type :: string
  duration :: int

text \<open>An entry of the enemy's \<open>limbs\<close> dictionary.\<close>

record Limb =
  health :: real
  limb_max_health :: int
  broken :: bool

datatype EnemyState = AGGRESSIVE | DEFENSIVE | FLEEING | STUNNED | ENRAGED

text \<open>
  class \<open>Enemy\<close> (enemy.py). \<open>limbs\<close> is the dictionary in insertion order.
  \<open>temp_defense_boost\<close> is \<open>hasattr(self, '_temp_defense_boost')\<close>. The attributes that only
  the boss subclasses create (\<open>phases\<close>, \<open>current_phase\<close>, \<open>royal_guard\<close>) are \<open>None\<close> on the
  other enemies.
\<close>

record Enemy =
  name :: string
  enemy_type :: string
  max_health :: int
  current_health :: real
  attack :: int
  defense :: int
  speed :: int
  gold_reward :: int
  xp_reward :: int
  state :: EnemyState
  behavior_pattern :: string
  turn_counter :: int
  limbs :: "(string \<times> Limb) list"
  status_effects :: "status_effect list"
  special_abilities :: "string list"
  temp_defense_boost :: bool
  phases :: "int option"
  current_phase :: "int option"
  royal_guard :: "bool option"

text \<open>
  The player's \<open>limb_damage\<close> dictionary. The source builds it with exactly the keys
  \<open>"arms"\<close> and \<open>"legs"\<close> and never adds or removes a key.
\<close>

record limb_damage_t =
  arms :: int
  legs :: int

text \<open>
  An entry of \<open>battle_history\<close>: a victory record carries \<open>gold_earned\<close> and \<open>xp_earned\<close>, a
  defeat record carries \<open>gold_lost\<close>.
\<close>

record battle_record =
  br_enemy :: string
  br_result :: string
  br_turns :: int
  br_gold_earned :: "int option"
  br_xp_earned :: "int option"
  br_gold_lost :: "real option"
  br_timestamp :: real

text \<open>An entry of \<open>investments\<close> (written by stock_market.py).\<close>

record investment =
  amount :: real
  avg_price :: real

text \<open>class \<open>PowerRanger\<close> (character.py).\<close>

record PowerRanger =
  name :: string
  color :: string
  power_type :: string
  weapon :: string
  level :: int
  xp :: int
  max_health :: int
  current_health :: real
  attack :: int
  defense :: int
  speed :: int
  gold :: real
  mega_energy :: int
  skill_points :: int
  ranger_keys :: "string list"
  battle_history :: "battle_record list"
  investments :: "(string \<times> investment) list"
  skills :: "(string \<times> bool) list"
  limb_damage :: limb_damage_t
  status_effects :: "status_effect list"

section \<open>character.py\<close>

text \<open>
  The methods mutate \<open>self\<close>; here each takes the player and returns its result together with
  the player afterwards. Every method body of the source sits in \<open>try ... except Exception\<close>;
  on the typed states of this model none of the modelled bodies can raise (dictionary reads
  are guarded by a membership test or go to keys that always exist, and there is no division),
  so the \<open>except\<close> branches have no counterpart.

  Messages are values of a datatype: one constructor for each message text of the source,
  carrying the number the text is formatted with.
\<close>

definition apply_creation_bonuses :: "PowerRanger \<Rightarrow> PowerRanger" where
  "apply_creation_bonuses p =
    (let p1 = (case map_of COLOR_BONUSES (color p) of
                 None \<Rightarrow> p
               | Some bonuses \<Rightarrow>
                   (let mh = PowerRanger.max_health p + dict_get bonuses ''health'' 0
                    in p\<lparr>PowerRanger.max_health := mh,
                         PowerRanger.attack := PowerRanger.attack p + dict_get bonuses ''attack'' 0,
                         PowerRanger.defense := PowerRanger.defense p + dict_get bonuses ''defense'' 0,
                         PowerRanger.speed := PowerRanger.speed p + dict_get bonuses ''speed'' 0,
                         PowerRanger.current_health := of_int mh\<rparr>));
         p2 = (case map_of POWER_BONUSES (power_type p1) of
                 None \<Rightarrow> p1
               | Some bonuses \<Rightarrow>
                   p1\<lparr>PowerRanger.attack := PowerRanger.attack p1 + dict_get bonuses ''attack'' 0,
                      PowerRanger.defense := PowerRanger.defense p1 + dict_get bonuses ''defense'' 0,
                      PowerRanger.speed := PowerRanger.speed p1 + dict_get bonuses ''speed'' 0\<rparr>)
     in (case map_of WEAPON_STATS (weapon p2) of
           None \<Rightarrow> p2
         | Some weapon_stats \<Rightarrow>
             p2\<lparr>PowerRanger.attack := PowerRanger.attack p2 + dict_get weapon_stats ''damage'' 0,
                PowerRanger.speed := PowerRanger.speed p2 + dict_get weapon_stats ''speed'' 0\<rparr>))"

definition PowerRanger_init :: "string \<Rightarrow> string \<Rightarrow> string \<Rightarrow> string \<Rightarrow> PowerRanger" where
  "PowerRanger_init nm col pt wp =
    (let p = \<lparr>PowerRanger.name = nm, color = col, power_type = pt, weapon = wp,
               level = 1, xp = 0,
               PowerRanger.max_health = BASE_HEALTH,
               PowerRanger.current_health = of_int BASE_HEALTH,
               PowerRanger.attack = BASE_ATTACK,
               PowerRanger.defense = BASE_DEFENSE,
               PowerRanger.speed = BASE_SPEED,
               gold = 100, mega_energy = 3, skill_points = 0,
               ranger_keys = [], battle_history = [], investments = [],
               skills = [(''Power Strike'', False), (''Mega Blast'', False),
                         (''Healing Light'', False), (''Speed Boost'', False),
                         (''Medic Protocol'', False)],
               limb_damage = \<lparr>arms = 0, legs = 0\<rparr>,
               PowerRanger.status_effects = []\<rparr>
     in if col \<noteq> [] \<and> pt \<noteq> [] \<and> wp \<noteq> [] then apply_creation_bonuses p else p)"

datatype player_msg =
    SkillNotAvailable
  | PowerStrikeDeals real
  | MegaBlastDeals real
  | Healed real
  | SpeedIncreased
  | FullHealingProtocol real
  | NotEnoughMegaEnergy
  | UnknownSkillEffect
  | CannotUseFusionPower
  | FusionPowerActivated real

definition use_skill :: "PowerRanger \<Rightarrow> string \<Rightarrow> (bool \<times> player_msg) \<times> PowerRanger" where
  "use_skill p skill_name =
    (if map_of (skills p) skill_name = None \<or> map_of (skills p) skill_name = Some False
       then ((False, SkillNotAvailable), p)
     else if skill_name = ''Power Strike'' then
       (if mega_energy p \<ge> 1
          then ((True, PowerStrikeDeals (of_int (PowerRanger.attack p) * 1.5)),
                p\<lparr>mega_energy := mega_energy p - 1\<rparr>)
        else ((False, NotEnoughMegaEnergy), p))
     else if skill_name = ''Mega Blast'' then
       (if mega_energy p \<ge> 2
          then ((True, MegaBlastDeals (of_int (PowerRanger.attack p) * 2.0)),
                p\<lparr>mega_energy := mega_energy p - 2\<rparr>)
        else ((False, NotEnoughMegaEnergy), p))
     else if skill_name = ''Healing Light'' then
       (if mega_energy p \<ge> 1
          then (let heal_amount = of_int (PowerRanger.max_health p) * 0.3
                in ((True, Healed heal_amount),
                    p\<lparr>mega_energy := mega_energy p - 1,
                       PowerRanger.current_health :=
                         min (of_int (PowerRanger.max_health p))
                             (PowerRanger.current_health p + heal_amount)\<rparr>))
        else ((False, NotEnoughMegaEnergy), p))
     else if skill_name = ''Speed Boost'' then
       (if mega_energy p \<ge> 1
          then ((True, SpeedIncreased),
                p\<lparr>mega_energy := mega_energy p - 1,
                   PowerRanger.status_effects :=
                     PowerRanger.status_effects p
                       @ [\<lparr>effect_type = ''speed_boost'', duration = 3\<rparr>]\<rparr>)
        else ((False, NotEnoughMegaEnergy), p))
     else if skill_name = ''Medic Protocol'' then
       (if mega_energy p \<ge> 2
          then (let heal_amount = of_int (PowerRanger.max_health p) * 0.5
                in ((True, FullHealingProtocol heal_amount),
                    p\<lparr>mega_energy := mega_energy p - 2,
                       PowerRanger.current_health :=
                         min (of_int (PowerRanger.max_health p))
                             (PowerRanger.current_health p + heal_amount),
                       limb_damage := \<lparr>arms = 0, legs = 0\<rparr>\<rparr>))
        else ((False, NotEnoughMegaEnergy), p))
     else ((False, UnknownSkillEffect), p))"

definition add_ranger_key :: "PowerRanger \<Rightarrow> string \<Rightarrow> bool \<times> PowerRanger" where
  "add_ranger_key p key_name =
    (if key_name \<notin> set (ranger_keys p) then
       (let p1 = p\<lparr>ranger_keys := ranger_keys p @ [key_name]\<rparr>;
            p2 = (if int (length (ranger_keys p1)) mod 5 = 0
                    then p1\<lparr>mega_energy := mega_energy p1 + 1\<rparr> else p1)
        in (True, p2))
     else (False, p))"

definition can_use_fusion_power :: "PowerRanger \<Rightarrow> bool" where
  "can_use_fusion_power p =
    (level p \<ge> 3 \<and> mega_energy p \<ge> 3 \<and> int (length (ranger_keys p)) \<ge> 2)"

definition use_fusion_power :: "PowerRanger \<Rightarrow> (bool \<times> player_msg) \<times> PowerRanger" where
  "use_fusion_power p =
    (if \<not> can_use_fusion_power p then ((False, CannotUseFusionPower), p)
     else (let p1 = p\<lparr>mega_energy := mega_energy p - 3\<rparr>;
               damage = of_int (PowerRanger.attack p1) * 3.0
           in ((True, FusionPowerActivated damage), p1)))"

definition take_damage :: "PowerRanger \<Rightarrow> real \<Rightarrow> real \<times> PowerRanger" where
  "take_damage p damage =
    (let actual_damage = max 1 (damage - of_int (PowerRanger.defense p));
         actual_damage = (if arms (limb_damage p) > 0 then actual_damage * 1.2 else actual_damage);
         p1 = p\<lparr>PowerRanger.current_health := PowerRanger.current_health p - actual_damage\<rparr>;
         p2 = p1\<lparr>PowerRanger.current_health := max 0 (PowerRanger.current_health p1)\<rparr>
     in (actual_damage, p2))"

definition heal :: "PowerRanger \<Rightarrow> real \<Rightarrow> real \<times> PowerRanger" where
  "heal p amt =
    (let old_health = PowerRanger.current_health p;
         p1 = p\<lparr>PowerRanger.current_health :=
                   min (of_int (PowerRanger.max_health p)) (PowerRanger.current_health p + amt)\<rparr>;
         actual_heal = PowerRanger.current_health p1 - old_health
     in (actual_heal, p1))"

definition is_alive :: "PowerRanger \<Rightarrow> bool" where
  "is_alive p = (PowerRanger.current_health p > 0)"

text \<open>
  The attribute mapping that \<open>get_stats_dict\<close> writes and \<open>load_from_dict\<close> reads: one
  entry for each of the twenty keys the two methods use, \<open>None\<close> when the key is absent
  (\<open>load_from_dict\<close> accepts a mapping with keys missing and falls back to its defaults).
\<close>

record stats_dict =
  d_name :: "string option"
  d_color :: "string option"
  d_power_type :: "string option"
  d_weapon :: "string option"
  d_level :: "int option"
  d_xp :: "int option"
  d_max_health :: "int option"
  d_current_health :: "real option"
  d_attack :: "int option"
  d_defense :: "int option"
  d_speed :: "int option"
  d_gold :: "real option"
  d_mega_energy :: "int option"
  d_skill_points :: "int option"
  d_ranger_keys :: "string list option"
  d_battle_history :: "battle_record list option"
  d_investments :: "(string \<times> investment) list option"
  d_skills :: "(string \<times> bool) list option"
  d_limb_damage :: "limb_damage_t option"
  d_status_effects :: "status_effect list option"

definition get_stats_dict :: "PowerRanger \<Rightarrow> stats_dict" where
  "get_stats_dict p =
    \<lparr>d_name = Some (PowerRanger.name p),
     d_color = Some (color p),
     d_power_type = Some (power_type p),
     d_weapon = Some (weapon p),
     d_level = Some (level p),
     d_xp = Some (xp p),
     d_max_health = Some (PowerRanger.max_health p),
     d_current_health = Some (PowerRanger.current_health p),
     d_attack = Some (PowerRanger.attack p),
     d_defense = Some (PowerRanger.defense p),
     d_speed = Some (PowerRanger.speed p),
     d_gold = Some (gold p),
     d_mega_energy = Some (mega_energy p),
     d_skill_points = Some (skill_points p),
     d_ranger_keys = Some (ranger_keys p),
     d_battle_history = Some (battle_history p),
     d_investments = Some (investments p),
     d_skills = Some (skills p),
     d_limb_damage = Some (limb_damage p),
     d_status_effects = Some (PowerRanger.status_effects p)\<rparr>"

definition data_get :: "'a option \<Rightarrow> 'a \<Rightarrow> 'a" where
  \<comment> \<open>\<open>data.get(key, default)\<close> on an entry of the attribute mapping.\<close>
  "data_get entry dflt = (case entry of None \<Rightarrow> dflt | Some v \<Rightarrow> v)"

definition load_from_dict :: "PowerRanger \<Rightarrow> stats_dict \<Rightarrow> bool \<times> PowerRanger" where
  "load_from_dict self data =
    (let p = self\<lparr>PowerRanger.name := data_get (d_name data) [],
                  color := data_get (d_color data) [],
                  power_type := data_get (d_power_type data) [],
                  weapon := data_get (d_weapon data) [],
                  level := data_get (d_level data) 1,
                  xp := data_get (d_xp data) 0,
                  PowerRanger.max_health := data_get (d_max_health data) BASE_HEALTH\<rparr>;
         p = p\<lparr>PowerRanger.current_health :=
                  data_get (d_current_health data) (of_int (PowerRanger.max_health p)),
               PowerRanger.attack := data_get (d_attack data) BASE_ATTACK,
               PowerRanger.defense := data_get (d_defense data) BASE_DEFENSE,
               PowerRanger.speed := data_get (d_speed data) BASE_SPEED,
               gold := data_get (d_gold data) 100,
               mega_energy := data_get (d_mega_energy data) 3,
               skill_points := data_get (d_skill_points data) 0,
               ranger_keys := data_get (d_ranger_keys data) [],
               battle_history := data_get (d_battle_history data) [],
               investments := data_get (d_investments data) [],
               skills := data_get (d_skills data)
                           [(''Power Strike'', False), (''Mega Blast'', False),
                            (''Healing Light'', False), (''Speed Boost'', False),
                            (''Medic Protocol'', False)],
               limb_damage := data_get (d_limb_damage data) \<lparr>arms = 0, legs = 0\<rparr>,
               PowerRanger.status_effects := data_get (d_status_effects data) []\<rparr>
     in (True, p))"

section \<open>battle.py: environment and regeneration\<close>

definition apply_environment_effects ::
  "PowerRanger \<Rightarrow> Enemy \<Rightarrow> string \<Rightarrow> PowerRanger \<times> Enemy" where
  "apply_environment_effects player enemy environment =
    (if environment = ''Forest'' then
       (player\<lparr>PowerRanger.speed := PowerRanger.speed player + 3\<rparr>, enemy)
     else if environment = ''Space Base'' then
       (player, enemy\<lparr>Enemy.attack := Enemy.attack enemy + 5\<rparr>)
     else if environment = ''Underwater'' then
       (player\<lparr>PowerRanger.defense := PowerRanger.defense player + 2\<rparr>,
        enemy\<lparr>Enemy.speed := Enemy.speed enemy - 2\<rparr>)
     else if environment = ''Mountain'' then
       (player\<lparr>PowerRanger.attack := PowerRanger.attack player + 3\<rparr>, enemy)
     else if environment = ''City'' then
       (player\<lparr>mega_energy := mega_energy player + 1\<rparr>, enemy)
     else (player, enemy))"

text \<open>
  The regeneration step at the end of a turn of \<open>_battle_loop\<close>:
  \<open>if self.turn_counter % 3 == 0: player.mega_energy = min(5, player.mega_energy + 1)\<close>.
\<close>

definition regenerate_mega_energy :: "int \<Rightarrow> PowerRanger \<Rightarrow> PowerRanger" where
  "regenerate_mega_energy turn player =
    (if turn mod 3 = 0 then player\<lparr>mega_energy := min 5 (mega_energy player + 1)\<rparr>
     else player)"


section \<open>enemy.py\<close>

text \<open>
  The draws from \<open>random\<close> are arguments of the functions that make them: the value of
  \<open>random.random()\<close> or \<open>random.uniform(0.8, 1.2)\<close>, the element picked by
  \<open>random.choice\<close>.
\<close>

definition base_limbs :: "(string \<times> Limb) list" where
  "base_limbs =
    [(''left_arm'', \<lparr>health = 20, limb_max_health = 20, broken = False\<rparr>),
     (''right_arm'', \<lparr>health = 20, limb_max_health = 20, broken = False\<rparr>),
     (''left_leg'', \<lparr>health = 15, limb_max_health = 15, broken = False\<rparr>),
     (''right_leg'', \<lparr>health = 15, limb_max_health = 15, broken = False\<rparr>)]"

definition scale_limbs :: "real \<Rightarrow> (string \<times> Limb) list \<Rightarrow> (string \<times> Limb) list" where
  \<comment> \<open>The loop over \<open>self.limbs.values()\<close> in \<open>_apply_type_stats\<close>.\<close>
  "scale_limbs limb_multiplier ls =
    map (\<lambda>(n, limb).
          (n, limb\<lparr>limb_max_health := py_int (of_int (limb_max_health limb) * limb_multiplier),
                   health := of_int (py_int (of_int (limb_max_health limb) * limb_multiplier))\<rparr>))
        ls"

definition add_boss_abilities :: "Enemy \<Rightarrow> Enemy" where
  "add_boss_abilities e =
    (if Enemy.name e = ''Metal Alice'' then
       e\<lparr>special_abilities := [''Cyber Blast'', ''System Repair'', ''Data Corruption'']\<rparr>
     else if Enemy.name e = ''Black Knight'' then
       e\<lparr>special_abilities := [''Dark Strike'', ''Shadow Shield'', ''Nightmare Wave'']\<rparr>
     else if Enemy.name e = ''Emperor Mavro'' then
       e\<lparr>special_abilities := [''Imperial Blast'', ''Royal Guard'', ''Conquest Beam'']\<rparr>
     else e)"

definition apply_type_stats :: "Enemy \<Rightarrow> Enemy" where
  "apply_type_stats e =
    (case map_of ENEMY_TYPES (enemy_type e) of
       Some (h, a, b) \<Rightarrow>
         e\<lparr>Enemy.max_health := h,
           Enemy.current_health := of_int h,
           Enemy.attack := a,
           behavior_pattern := b,
           limbs := scale_limbs (of_int h / 50) (limbs e)\<rparr>
     | None \<Rightarrow>
         (case map_of BOSS_ENEMIES (enemy_type e) of
            Some (h, a, ph) \<Rightarrow>
              add_boss_abilities
                (e\<lparr>Enemy.max_health := h,
                   Enemy.current_health := of_int h,
                   Enemy.attack := a,
                   behavior_pattern := ''boss'',
                   gold_reward := 100,
                   xp_reward := 75,
                   limbs := scale_limbs 2 (limbs e)\<rparr>)
          | None \<Rightarrow> e))"

definition Enemy_init :: "string \<Rightarrow> string \<Rightarrow> Enemy" where
  "Enemy_init nm et =
    apply_type_stats
      \<lparr>Enemy.name = nm, enemy_type = et,
       Enemy.max_health = 50, Enemy.current_health = 50,
       Enemy.attack = 15, Enemy.defense = 5, Enemy.speed = 10,
       gold_reward = 25, xp_reward = 20,
       state = AGGRESSIVE, behavior_pattern = ''normal'', turn_counter = 0,
       limbs = base_limbs,
       Enemy.status_effects = [], special_abilities = [],
       temp_defense_boost = False,
       phases = None, current_phase = None, royal_guard = None\<rparr>"

text \<open>The concrete subclasses: each constructor runs \<open>Enemy.__init__\<close> and then its own lines.\<close>

definition Loogies :: Enemy where
  "Loogies = (Enemy_init ''Loogies'' ''Loogies'')\<lparr>behavior_pattern := ''aggressive''\<rparr>"

definition Zombats :: Enemy where
  "Zombats =
    (let e = (Enemy_init ''Zombats'' ''Zombats'')\<lparr>behavior_pattern := ''swarm''\<rparr>
     in e\<lparr>Enemy.speed := Enemy.speed e + 5\<rparr>)"

definition Bruisers :: Enemy where
  "Bruisers =
    (let e = (Enemy_init ''Bruisers'' ''Bruisers'')\<lparr>behavior_pattern := ''tank''\<rparr>
     in e\<lparr>Enemy.defense := Enemy.defense e + 3\<rparr>)"

definition XBorgs :: Enemy where
  "XBorgs =
    (let e = (Enemy_init ''X-Borgs'' ''X-Borgs'')\<lparr>behavior_pattern := ''tactical''\<rparr>
     in e\<lparr>Enemy.attack := Enemy.attack e + 2\<rparr>)"

definition MetalAlice :: Enemy where
  "MetalAlice =
    (Enemy_init ''Metal Alice'' ''Metal Alice'')
      \<lparr>behavior_pattern := ''boss'', phases := Some 2, current_phase := Some 1\<rparr>"

definition BlackKnight :: Enemy where
  "BlackKnight =
    (Enemy_init ''Black Knight'' ''Black Knight'')
      \<lparr>behavior_pattern := ''boss'', phases := Some 3, current_phase := Some 1\<rparr>"

definition EmperorMavro :: Enemy where
  "EmperorMavro =
    (Enemy_init ''Emperor Mavro'' ''Emperor Mavro'')
      \<lparr>behavior_pattern := ''boss'', phases := Some 3, current_phase := Some 1,
       royal_guard := Some True\<rparr>"


datatype limb_msg =
    InvalidLimb
  | AlreadyBroken string
  | ArmBroken string
  | LegBroken string
  | LimbTakesDamage string real

definition take_limb_damage :: "Enemy \<Rightarrow> string \<Rightarrow> real \<Rightarrow> (bool \<times> limb_msg) \<times> Enemy" where
  "take_limb_damage e limb_name damage =
    (case map_of (limbs e) limb_name of
       None \<Rightarrow> ((False, InvalidLimb), e)
     | Some limb \<Rightarrow>
         if broken limb then ((False, AlreadyBroken limb_name), e)
         else
           (let limb1 = limb\<lparr>health := health limb - damage\<rparr>
            in if health limb1 \<le> 0 then
                 (let limb2 = limb1\<lparr>health := 0, broken := True\<rparr>;
                      e1 = e\<lparr>limbs := AList.update limb_name limb2 (limbs e)\<rparr>
                  in if str_in ''arm'' limb_name then
                       ((True, ArmBroken limb_name),
                        e1\<lparr>Enemy.attack := py_int (of_int (Enemy.attack e1) * 0.8)\<rparr>)
                     else if str_in ''leg'' limb_name then
                       ((True, LegBroken limb_name),
                        e1\<lparr>Enemy.speed := py_int (of_int (Enemy.speed e1) * 0.8)\<rparr>)
                     else ((True, LimbTakesDamage limb_name damage), e1))
               else ((True, LimbTakesDamage limb_name damage),
                     e\<lparr>limbs := AList.update limb_name limb1 (limbs e)\<rparr>)))"

definition Enemy_take_damage :: "Enemy \<Rightarrow> real \<Rightarrow> string \<Rightarrow> real \<times> Enemy" where
  \<comment> \<open>\<open>target_limb\<close> is the name that \<open>random.choice(limb_names)\<close> returns on a critical
      hit; \<open>damage // 3\<close> is the floor of the third.\<close>
  "Enemy_take_damage e damage target_limb =
    (let actual_damage = max 1 (damage - of_int (Enemy.defense e));
         e1 = e\<lparr>Enemy.current_health := Enemy.current_health e - actual_damage\<rparr>;
         e2 = e1\<lparr>Enemy.current_health := max 0 (Enemy.current_health e1)\<rparr>;
         e3 = (if temp_defense_boost e2
                 then e2\<lparr>Enemy.defense := Enemy.defense e2 - 5, temp_defense_boost := False\<rparr>
               else e2);
         e4 = (if damage > of_int (Enemy.attack e3) * 1.5
                 then snd (take_limb_damage e3 target_limb (of_int \<lfloor>damage / 3\<rfloor>))
               else e3)
     in (actual_damage, e4))"

definition Enemy_is_alive :: "Enemy \<Rightarrow> bool" where
  "Enemy_is_alive e = (Enemy.current_health e > 0)"


definition limb_broken :: "Enemy \<Rightarrow> string \<Rightarrow> bool option" where
  \<comment> \<open>\<open>self.limbs[limb_name]["broken"]\<close>; \<open>None\<close> is the \<open>KeyError\<close> of a missing limb.\<close>
  "limb_broken e limb_name = map_option broken (map_of (limbs e) limb_name)"

definition calculate_attack_damage :: "Enemy \<Rightarrow> real \<Rightarrow> int" where
  \<comment> \<open>\<open>u\<close> is the value of \<open>random.uniform(0.8, 1.2)\<close>. \<open>or\<close> and \<open>and\<close> read their second
      operand only when the first does not decide; a missing limb raises, and the handler
      returns \<open>self.attack\<close>.\<close>
  "calculate_attack_damage e u =
    (case limb_broken e ''left_arm'' of
       None \<Rightarrow> Enemy.attack e
     | Some la \<Rightarrow>
        (case (if la then Some True else limb_broken e ''right_arm'') of
           None \<Rightarrow> Enemy.attack e
         | Some arm_broken \<Rightarrow>
            (case limb_broken e ''left_leg'' of
               None \<Rightarrow> Enemy.attack e
             | Some ll \<Rightarrow>
                (case (if ll then limb_broken e ''right_leg'' else Some False) of
                   None \<Rightarrow> Enemy.attack e
                 | Some legs_broken \<Rightarrow>
                    (let base_damage = of_int (Enemy.attack e);
                         base_damage = (if arm_broken then base_damage * 0.7 else base_damage);
                         base_damage = (if legs_broken then base_damage * 0.8 else base_damage);
                         damage = base_damage * u
                     in max 1 (py_int damage))))))"

datatype special_msg =
    CyberEnergySurges
  | SystemsRepaired real
  | SystemsCorrupted
  | DarknessEngulfs
  | ShadowArmorActivated
  | NightmaresCloud
  | ImperialPowerUnleashed
  | RoyalDefensesRaised
  | ConquestBeamFired
  | SpecialAttack

definition use_special_ability ::
  "Enemy \<Rightarrow> string \<Rightarrow> PowerRanger \<Rightarrow> (real \<times> special_msg) \<times> Enemy \<times> PowerRanger" where
  "use_special_ability e ability player =
    (if ability = ''Cyber Blast'' then
       ((of_int (Enemy.attack e) * 1.8, CyberEnergySurges), e, player)
     else if ability = ''System Repair'' then
       (let heal_amount = of_int (Enemy.max_health e) * 0.25
        in ((0, SystemsRepaired heal_amount),
            e\<lparr>Enemy.current_health :=
                 min (of_int (Enemy.max_health e)) (Enemy.current_health e + heal_amount)\<rparr>,
            player))
     else if ability = ''Data Corruption'' then
       ((of_int (Enemy.attack e) * 1.2, SystemsCorrupted), e,
        player\<lparr>PowerRanger.status_effects :=
                 PowerRanger.status_effects player
                   @ [\<lparr>effect_type = ''corrupted'', duration = 2\<rparr>]\<rparr>)
     else if ability = ''Dark Strike'' then
       ((of_int (Enemy.attack e) * 2.0, DarknessEngulfs), e, player)
     else if ability = ''Shadow Shield'' then
       ((0, ShadowArmorActivated), e\<lparr>Enemy.defense := Enemy.defense e + 10\<rparr>, player)
     else if ability = ''Nightmare Wave'' then
       ((of_int (Enemy.attack e) * 1.5, NightmaresCloud), e, player)
     else if ability = ''Imperial Blast'' then
       ((of_int (Enemy.attack e) * 2.5, ImperialPowerUnleashed), e, player)
     else if ability = ''Royal Guard'' then
       ((0, RoyalDefensesRaised), e\<lparr>Enemy.defense := Enemy.defense e + 15\<rparr>, player)
     else if ability = ''Conquest Beam'' then
       ((of_int (Enemy.attack e) * 2.2, ConquestBeamFired), e, player)
     else ((of_int (Enemy.attack e), SpecialAttack), e, player))"

datatype enemy_msg =
    AttacksFor real
  | PowerfulAttackFor real
  | EnragedAttackDeals real
  | DesperateAttackDeals real
  | UsesAbility string special_msg real
  | DefendsAndRecovers real
  | HealsFor real
  | TryingToEscape
  | StunnedCannotAct
  | EmptyMessage

definition execute_action ::
  "Enemy \<Rightarrow> string \<Rightarrow> PowerRanger \<Rightarrow> real \<Rightarrow> string
     \<Rightarrow> (real \<times> enemy_msg) \<times> Enemy \<times> PowerRanger" where
  \<comment> \<open>\<open>u\<close> is the draw of \<open>calculate_attack_damage\<close>, \<open>ability\<close> the element that
      \<open>random.choice(self.special_abilities)\<close> returns.\<close>
  "execute_action e action player u ability =
    (if action = ''basic_attack'' then
       (let damage = of_int (calculate_attack_damage e u);
            (damage_dealt, player1) = take_damage player damage
        in ((damage_dealt, AttacksFor damage_dealt), e, player1))
     else if action = ''power_attack'' then
       (let damage = of_int (calculate_attack_damage e u) * 1.5;
            (damage_dealt, player1) = take_damage player damage
        in ((damage_dealt, PowerfulAttackFor damage_dealt), e, player1))
     else if action = ''enraged_attack'' then
       (let damage = of_int (calculate_attack_damage e u) * 2.0;
            (damage_dealt, player1) = take_damage player damage
        in ((damage_dealt, EnragedAttackDeals damage_dealt), e, player1))
     else if action = ''desperate_attack'' then
       (let damage = of_int (calculate_attack_damage e u) * 1.2;
            (damage_dealt, player1) = take_damage player damage
        in ((damage_dealt, DesperateAttackDeals damage_dealt), e, player1))
     else if action = ''special_attack'' then
       (if special_abilities e \<noteq> [] then
          (let ((damage, special_message), e1, player1) = use_special_ability e ability player;
               (damage_dealt, player2) = take_damage player1 damage
           in ((damage_dealt, UsesAbility ability special_message damage_dealt), e1, player2))
        else
          (let damage = of_int (calculate_attack_damage e u);
               (damage_dealt, player1) = take_damage player damage
           in ((damage_dealt, AttacksFor damage_dealt), e, player1)))
     else if action = ''defend'' then
       (let e1 = e\<lparr>Enemy.defense := Enemy.defense e + 5\<rparr>;
            heal_amount = of_int (Enemy.max_health e1) * 0.1;
            e2 = e1\<lparr>Enemy.current_health :=
                      min (of_int (Enemy.max_health e1)) (Enemy.current_health e1 + heal_amount)\<rparr>
        in ((0, DefendsAndRecovers heal_amount), e2, player))
     else if action = ''heal'' then
       (let heal_amount = of_int (Enemy.max_health e) * 0.15;
            e1 = e\<lparr>Enemy.current_health :=
                     min (of_int (Enemy.max_health e)) (Enemy.current_health e + heal_amount)\<rparr>
        in ((0, HealsFor heal_amount), e1, player))
     else if action = ''flee'' then ((0, TryingToEscape), e, player)
     else if action = ''stunned'' then ((0, StunnedCannotAct), e, player)
     else ((0, EmptyMessage), e, player))"

definition enemy_classes :: "(string \<times> Enemy) list" where
  "enemy_classes =
    [(''Loogies'', Loogies), (''Zombats'', Zombats), (''Bruisers'', Bruisers),
     (''X-Borgs'', XBorgs), (''Metal Alice'', MetalAlice), (''Black Knight'', BlackKnight),
     (''Emperor Mavro'', EmperorMavro)]"

definition difficulty_multipliers :: "(string \<times> real) list" where
  "difficulty_multipliers =
    [(''Easy'', 0.8), (''Medium'', 1.0), (''Hard'', 1.3), (''Extreme'', 1.6)]"

definition create_enemy :: "string \<Rightarrow> string \<Rightarrow> string \<Rightarrow> Enemy" where
  \<comment> \<open>\<open>etype\<close> is the argument \<open>enemy_type\<close>; \<open>pick\<close> is the key that
      \<open>random.choice(list(Config.ENEMY_TYPES.keys()))\<close> returns when the type is \<open>"random"\<close>. Nothing in the body raises, so the handler's fallback is
      never taken.\<close>
  "create_enemy pick etype mission_difficulty =
    (let etype = (if etype = ''random'' then pick else etype);
         enemy = (case map_of enemy_classes etype of
                    Some cls \<Rightarrow> cls
                  | None \<Rightarrow> Loogies);
         multiplier = dict_get difficulty_multipliers mission_difficulty 1.0;
         enemy = enemy\<lparr>Enemy.max_health := py_int (of_int (Enemy.max_health enemy) * multiplier)\<rparr>;
         enemy = enemy\<lparr>Enemy.current_health := of_int (Enemy.max_health enemy)\<rparr>;
         enemy = enemy\<lparr>Enemy.attack := py_int (of_int (Enemy.attack enemy) * multiplier)\<rparr>;
         enemy = enemy\<lparr>Enemy.defense := py_int (of_int (Enemy.defense enemy) * multiplier)\<rparr>;
         enemy = enemy\<lparr>gold_reward := py_int (of_int (gold_reward enemy) * multiplier)\<rparr>;
         enemy = enemy\<lparr>xp_reward := py_int (of_int (xp_reward enemy) * multiplier)\<rparr>
     in enemy)"

section \<open>battle.py: combo attack and victory rewards\<close>





text \<open>
  The reward computation of \<open>_handle_victory\<close> (from "Calculate rewards" to "Calculate final
  rewards"): the health bonus, the combo bonus, and the pair \<open>(final_gold, final_xp)\<close> that the
  method then adds to the player and returns as \<open>gold_earned\<close> and \<open>xp_earned\<close>. The battle log
  is the list of logged strings, each without its leading pictograph, which is not ASCII and
  which no test of the source looks at. The literals \<open>0.8\<close>, \<open>1.2\<close> and \<open>0.1\<close> are the doubles
  nearest to them; \<open>1.0\<close> and \<open>1.5\<close> are doubles themselves. A product of an \<open>int\<close> and a
  \<open>float\<close> converts the \<open>int\<close> first, and \<open>a * b * c\<close> multiplies from the left.
\<close>

definition health_bonus :: "PowerRanger \<Rightarrow> real" where
  "health_bonus player =
    (if PowerRanger.current_health player = of_int (PowerRanger.max_health player) then 1.5
     else if PowerRanger.current_health player
               \<ge> float_mul (float_of_int (PowerRanger.max_health player)) (fl 0.8)
       then fl 1.2
     else 1.0)"

definition combo_count :: "string list \<Rightarrow> nat" where
  "combo_count battle_log = length (filter (\<lambda>log. str_in ''COMBO'' log) battle_log)"

definition combo_bonus :: "string list \<Rightarrow> real" where
  "combo_bonus battle_log =
    (if combo_count battle_log > 0
       then float_add 1 (float_mul (float_of_int (int (combo_count battle_log))) (fl 0.1))
     else 1.0)"

definition victory_rewards :: "PowerRanger \<Rightarrow> Enemy \<Rightarrow> string list \<Rightarrow> int \<times> int" where
  "victory_rewards player enemy battle_log =
    (let base_gold = gold_reward enemy;
         base_xp = xp_reward enemy;
         final_gold = py_int (float_mul (float_mul (float_of_int base_gold) (health_bonus player))
                                        (combo_bonus battle_log));
         final_xp = py_int (float_mul (float_mul (float_of_int base_xp) (health_bonus player))
                                      (combo_bonus battle_log))
     in (final_gold, final_xp))"

section \<open>The specification's accuracy\<close>



section \<open>States used as examples\<close>

text \<open>A new player, built with no creation choices: \<open>PowerRanger()\<close>.\<close>

definition new_player :: PowerRanger where
  "new_player = PowerRanger_init [] [] [] []"

text \<open>The same player after the regeneration steps of turns 3 and 6 of a battle.\<close>

definition rested_player :: PowerRanger where
  "rested_player = regenerate_mega_energy 6 (regenerate_mega_energy 3 new_player)"

text \<open>A player at level 3 who holds two ranger keys.\<close>

definition veteran_player :: PowerRanger where
  "veteran_player = new_player\<lparr>level := 3, ranger_keys := [''Red Ranger Key'', ''Blue Ranger Key'']\<rparr>"


text \<open>
  A Loogies enemy that executed \<open>defend\<close> and was then hit for 20, and the same enemy after
  doing both once more.
\<close>

definition defended_once :: Enemy where
  "defended_once =
     snd (Enemy_take_damage
            (fst (snd (execute_action Loogies ''defend'' new_player 1 [])))
            20 ''left_arm'')"

definition defended_twice :: Enemy where
  "defended_twice =
     snd (Enemy_take_damage
            (fst (snd (execute_action defended_once ''defend'' new_player 1 [])))
            20 ''left_arm'')"

text \<open>
  Two battle-log entries of \<open>_execute_combo_attack\<close>: the one a combo with three of four keys
  right leaves (attack 20 against defense 5), and the one a perfect combo leaves.
\<close>

definition good_combo_entry :: string where
  "good_combo_entry = ''Good combo! 30.0 damage dealt! (75% accuracy)''"

definition perfect_combo_entry :: string where
  "perfect_combo_entry = ''PERFECT COMBO! 35.0 damage dealt! (1.2s)''"

text \<open>A player who ends a battle at 90 of 100 health.\<close>

definition bruised_player :: PowerRanger where
  "bruised_player = new_player\<lparr>PowerRanger.current_health := 90\<rparr>"

section \<open>Evaluating the float rounding\<close>

text \<open>
  For \<open>|x| < 2 ^ 53\<close> the rounding is computed from the scaling that brings \<open>|x|\<close> between
  \<open>2 ^ 52\<close> and \<open>2 ^ 53\<close>.
\<close>

lemma fl_eval:
  assumes "2 ^ 52 \<le> \<bar>x\<bar> * 2 ^ n" and "\<bar>x\<bar> * 2 ^ n < 2 ^ 53"
  shows "fl x = of_int (round_half_even (x * 2 ^ n)) / 2 ^ n"
proof -
  have pn: "(2::real) powr (real n) = 2 ^ n" by (simp add: powr_realpow)
  have p52: "(2::real) powr 52 = 2 ^ 52" using powr_realpow [of 2 52] by simp
  have p53: "(2::real) powr 53 = 2 ^ 53" using powr_realpow [of 2 53] by simp
  have pos: "0 < \<bar>x\<bar>"
  proof (rule ccontr)
    assume "\<not> 0 < \<bar>x\<bar>"
    then have "\<bar>x\<bar> * 2 ^ n = 0" by simp
    with assms(1) show False by simp
  qed
  have lo: "2 powr (of_int (52 - int n)) \<le> \<bar>x\<bar>"
  proof -
    have "2 powr (of_int (52 - int n)) = (2::real) powr (52 - real n)" by simp
    also have "\<dots> = 2 powr 52 / 2 powr (real n)" by (rule powr_diff)
    also have "\<dots> = 2 ^ 52 / 2 ^ n" by (simp only: pn p52)
    also have "\<dots> \<le> \<bar>x\<bar>" using assms(1) by (simp add: field_simps)
    finally show ?thesis .
  qed
  have hi: "\<bar>x\<bar> < 2 powr (of_int (52 - int n) + 1)"
  proof -
    have "2 powr (of_int (52 - int n) + 1) = (2::real) powr (53 - real n)" by simp
    also have "\<dots> = 2 powr 53 / 2 powr (real n)" by (rule powr_diff)
    also have "\<dots> = 2 ^ 53 / 2 ^ n" by (simp only: pn p53)
    finally have e: "2 powr (of_int (52 - int n) + 1) = (2::real) ^ 53 / 2 ^ n" .
    show ?thesis unfolding e using assms(2) by (simp add: field_simps)
  qed
  have "\<lfloor>log 2 \<bar>x\<bar>\<rfloor> = 52 - int n"
    using pos lo hi by (simp add: floor_log_eq_powr_iff)
  moreover have "x \<noteq> 0" using pos by simp
  moreover have "(2::real) powr (of_int (52 - int n) - 52) = 1 / 2 ^ n"
  proof -
    have "(2::real) powr (of_int (52 - int n) - 52) = 2 powr (- real n)" by simp
    also have "\<dots> = 1 / 2 powr (real n)" by (simp add: powr_minus divide_inverse)
    finally show ?thesis by (simp only: pn)
  qed
  ultimately show ?thesis by (simp add: fl_def Let_def)
qed

text \<open>The three literals, and the small integers and halves that the examples meet.\<close>

lemma fl_literals:
  "fl 0.8 = 7205759403792794 / 2 ^ 53"
  "fl 1.2 = 5404319552844595 / 2 ^ 52"
  "fl 0.1 = 7205759403792794 / 2 ^ 56"
  using fl_eval [of "0.8" 53] fl_eval [of "1.2" 52] fl_eval [of "0.1" 56]
  by (simp_all add: round_half_even_def Let_def)

lemma fl_exact:
  "fl 4 = 4" "fl 20 = 20" "fl 25 = 25" "fl 30 = 30" "fl 37.5 = 37.5"
  "fl 75 = 75" "fl 100 = 100" "fl 120 = 120"
  using fl_eval [of 4 50] fl_eval [of 20 48] fl_eval [of 25 48] fl_eval [of 30 48]
    fl_eval [of "37.5" 47] fl_eval [of 75 46] fl_eval [of 100 46] fl_eval [of 120 46]
  by (simp_all add: round_half_even_def Let_def)

section \<open>Facts about the example states\<close>

lemma new_player_eq:
  "new_player =
    \<lparr>PowerRanger.name = [], color = [], power_type = [], weapon = [],
     level = 1, xp = 0,
     PowerRanger.max_health = 100, PowerRanger.current_health = 100,
     PowerRanger.attack = 20, PowerRanger.defense = 10, PowerRanger.speed = 15,
     gold = 100, mega_energy = 3, skill_points = 0,
     ranger_keys = [], battle_history = [], investments = [],
     skills = [(''Power Strike'', False), (''Mega Blast'', False),
               (''Healing Light'', False), (''Speed Boost'', False),
               (''Medic Protocol'', False)],
     limb_damage = \<lparr>arms = 0, legs = 0\<rparr>,
     PowerRanger.status_effects = []\<rparr>"
  by (simp add: new_player_def PowerRanger_init_def BASE_HEALTH_def BASE_ATTACK_def
      BASE_DEFENSE_def BASE_SPEED_def)

lemma Loogies_eq:
  "Loogies =
    \<lparr>Enemy.name = ''Loogies'', enemy_type = ''Loogies'',
     Enemy.max_health = 30, Enemy.current_health = 30,
     Enemy.attack = 8, Enemy.defense = 5, Enemy.speed = 10,
     gold_reward = 25, xp_reward = 20,
     state = AGGRESSIVE, behavior_pattern = ''aggressive'', turn_counter = 0,
     limbs = [(''left_arm'', \<lparr>health = 12, limb_max_health = 12, broken = False\<rparr>),
              (''right_arm'', \<lparr>health = 12, limb_max_health = 12, broken = False\<rparr>),
              (''left_leg'', \<lparr>health = 9, limb_max_health = 9, broken = False\<rparr>),
              (''right_leg'', \<lparr>health = 9, limb_max_health = 9, broken = False\<rparr>)],
     Enemy.status_effects = [], special_abilities = [],
     temp_defense_boost = False,
     phases = None, current_phase = None, royal_guard = None\<rparr>"
  by (simp add: Loogies_def Enemy_init_def apply_type_stats_def ENEMY_TYPES_def base_limbs_def
      scale_limbs_def py_int_def)

lemma str_in_limb_names:
  "str_in ''arm'' ''left_arm''" "str_in ''arm'' ''right_arm''"
  "\<not> str_in ''arm'' ''left_leg''" "\<not> str_in ''arm'' ''right_leg''"
  "str_in ''leg'' ''left_leg''" "str_in ''leg'' ''right_leg''"
  unfolding str_in_def by code_simp+

lemma str_in_combo_entries:
  "\<not> str_in ''COMBO'' good_combo_entry" "str_in ''COMBO'' perfect_combo_entry"
  unfolding str_in_def good_combo_entry_def perfect_combo_entry_def by code_simp+


section \<open>The player takes damage\<close>

text \<open>
  C2. For every raw damage and every defense, \<open>take_damage\<close> computes
  \<open>max(1, raw_damage - defense)\<close>, multiplies it by 1.2 when the arms counter is positive,
  subtracts the result from \<open>current_health\<close>, clamps \<open>current_health\<close> at 0 from below, and
  returns the amount, which is at least 1 however large the defense is.
\<close>

theorem take_damage_floor:
  "take_damage p raw_damage =
     (let base = max 1 (raw_damage - of_int (PowerRanger.defense p));
          actual = (if arms (limb_damage p) > 0 then base * 1.2 else base)
      in (actual,
          p\<lparr>PowerRanger.current_health := max 0 (PowerRanger.current_health p - actual)\<rparr>))
   \<and> fst (take_damage p raw_damage) \<ge> 1"
proof -
  define base where "base = max 1 (raw_damage - of_int (PowerRanger.defense p))"
  have b: "1 \<le> base" by (simp add: base_def)
  then have "1 \<le> base * 1.2" by linarith
  with b have "1 \<le> (if arms (limb_damage p) > 0 then base * 1.2 else base)" by simp
  moreover have "fst (take_damage p raw_damage)
                   = (if arms (limb_damage p) > 0 then base * 1.2 else base)"
    by (simp only: take_damage_def Let_def base_def fst_conv)
  moreover have "take_damage p raw_damage =
     (let base = max 1 (raw_damage - of_int (PowerRanger.defense p));
          actual = (if arms (limb_damage p) > 0 then base * 1.2 else base)
      in (actual,
          p\<lparr>PowerRanger.current_health := max 0 (PowerRanger.current_health p - actual)\<rparr>))"
    by (simp add: take_damage_def Let_def)
  ultimately show ?thesis by (simp only: simp_thms)
qed

theorem take_damage_floor_witness:
  "fst (take_damage new_player 0) = 1
   \<and> fst (take_damage (new_player\<lparr>limb_damage := \<lparr>arms = 2, legs = 0\<rparr>\<rparr>) 3) = 1.2
   \<and> PowerRanger.current_health (snd (take_damage new_player 500)) = 0"
  using take_damage_floor [of new_player 0]
    take_damage_floor [of "new_player\<lparr>limb_damage := \<lparr>arms = 2, legs = 0\<rparr>\<rparr>" 3]
    take_damage_floor [of new_player 500]
  by (simp add: new_player_eq Let_def)

section \<open>Fusion power\<close>

text \<open>
  C3. Fusion power is all-or-nothing. When one of the three preconditions fails (level at least
  3, mega energy at least 3, at least 2 ranger keys), \<open>use_fusion_power\<close> returns failure and
  the player, mega energy included, is unchanged. When all three hold it returns success,
  takes exactly 3 from the mega energy and nothing else, and reports the damage
  \<open>attack * 3.0\<close>.
\<close>

theorem use_fusion_power_all_or_nothing:
  "(level p < 3 \<or> mega_energy p < 3 \<or> length (ranger_keys p) < 2 \<longrightarrow>
      fst (fst (use_fusion_power p)) = False \<and> snd (use_fusion_power p) = p)
   \<and> (level p \<ge> 3 \<and> mega_energy p \<ge> 3 \<and> length (ranger_keys p) \<ge> 2 \<longrightarrow>
      use_fusion_power p =
        ((True, FusionPowerActivated (of_int (PowerRanger.attack p) * 3)),
         p\<lparr>mega_energy := mega_energy p - 3\<rparr>))"
  by (auto simp add: use_fusion_power_def can_use_fusion_power_def Let_def)

theorem use_fusion_power_all_or_nothing_witness:
  "snd (use_fusion_power new_player) = new_player
   \<and> fst (use_fusion_power veteran_player) = (True, FusionPowerActivated 60)
   \<and> mega_energy (snd (use_fusion_power veteran_player)) = 0"
  using use_fusion_power_all_or_nothing [of new_player]
    use_fusion_power_all_or_nothing [of veteran_player]
  by (simp add: veteran_player_def new_player_eq)

section \<open>The bounds of mega energy\<close>

text \<open>
  Skills, fusion power and the regeneration step keep the mega energy between 0 and 5.
\<close>

lemma use_skill_mega_energy:
  "0 \<le> mega_energy p \<Longrightarrow> mega_energy p \<le> 5 \<Longrightarrow>
   0 \<le> mega_energy (snd (use_skill p s)) \<and> mega_energy (snd (use_skill p s)) \<le> 5"
  by (simp add: use_skill_def Let_def)

lemma use_fusion_power_mega_energy:
  "0 \<le> mega_energy p \<Longrightarrow> mega_energy p \<le> 5 \<Longrightarrow>
   0 \<le> mega_energy (snd (use_fusion_power p)) \<and> mega_energy (snd (use_fusion_power p)) \<le> 5"
  by (simp add: use_fusion_power_def can_use_fusion_power_def Let_def)

lemma regenerate_mega_energy_bounds:
  "0 \<le> mega_energy p \<Longrightarrow> mega_energy p \<le> 5 \<Longrightarrow>
   0 \<le> mega_energy (regenerate_mega_energy t p) \<and> mega_energy (regenerate_mega_energy t p) \<le> 5"
  by (simp add: regenerate_mega_energy_def)

text \<open>
  C1. The claim: every operation of the core leaves the mega energy between 0 and 5. The
  City modifier and the bonus of every fifth ranger key add 1 with no cap. A new player
  holds 3; the regeneration steps of turns 3 and 6 bring that to 5; a battle that then starts
  in the City leaves 6. A player at 5 with four keys who receives a fifth key holds 6 as well.
\<close>

theorem mega_energy_exceeds_cap:
  "mega_energy rested_player = 5
   \<and> mega_energy (fst (apply_environment_effects rested_player Loogies ''City'')) = 6
   \<and> mega_energy
        (snd (add_ranger_key
               (rested_player
                  \<lparr>ranger_keys := [''Red Ranger Key'', ''Blue Ranger Key'',
                                   ''Yellow Ranger Key'', ''Pink Ranger Key'']\<rparr>)
               ''Black Ranger Key'')) = 6"
  by (simp add: rested_player_def regenerate_mega_energy_def apply_environment_effects_def
      add_ranger_key_def new_player_eq Let_def)

section \<open>Serialization\<close>

text \<open>
  C9. Round trip: \<open>load_from_dict\<close> applied to the mapping that \<open>get_stats_dict\<close> wrote for a
  player succeeds and produces that player, whatever the receiving object held before: all
  stats (level, xp, max and current health, attack, defense, speed, gold, mega energy, skill
  points), the skills, the limb damage and the status effects have the values of the original,
  and so have the remaining attributes.
\<close>

theorem load_get_stats_round_trip:
  "load_from_dict self (get_stats_dict p) = (True, p)"
  by (simp add: load_from_dict_def get_stats_dict_def data_get_def Let_def)

theorem load_get_stats_round_trip_witness:
  "load_from_dict new_player (get_stats_dict (snd (take_damage veteran_player 25)))
     = (True, snd (take_damage veteran_player 25))"
  using load_get_stats_round_trip [of new_player "snd (take_damage veteran_player 25)"]
  by simp

section \<open>The enemy factory\<close>

text \<open>
  C10. For every archetype string that is neither \<open>"random"\<close> nor one of the seven known names,
  \<open>create_enemy\<close> does not fail: it builds a Loogies enemy and applies the multiplier of the
  requested difficulty (1.0 for an unknown difficulty tag) to its health (30), attack (8),
  defense (5), gold reward (25) and xp reward (20), each product cut to an integer by
  \<open>int\<close>.
\<close>

theorem create_enemy_unknown_archetype:
  "etype \<noteq> ''random'' \<and>
   etype \<notin> {''Loogies'', ''Zombats'', ''Bruisers'', ''X-Borgs'', ''Metal Alice'',
              ''Black Knight'', ''Emperor Mavro''} \<longrightarrow>
   create_enemy pick etype difficulty =
     (let multiplier = (if difficulty = ''Easy'' then 0.8
                        else if difficulty = ''Medium'' then 1.0
                        else if difficulty = ''Hard'' then 1.3
                        else if difficulty = ''Extreme'' then 1.6
                        else 1.0)
      in Loogies\<lparr>Enemy.max_health := py_int (30 * multiplier),
                 Enemy.current_health := of_int (py_int (30 * multiplier)),
                 Enemy.attack := py_int (8 * multiplier),
                 Enemy.defense := py_int (5 * multiplier),
                 gold_reward := py_int (25 * multiplier),
                 xp_reward := py_int (20 * multiplier)\<rparr>)"
  by (simp add: create_enemy_def enemy_classes_def difficulty_multipliers_def dict_get_def
      Let_def Loogies_eq)

theorem create_enemy_unknown_archetype_witness:
  "create_enemy ''Zombats'' ''Gorgon'' ''Hard''
     = Loogies\<lparr>Enemy.max_health := 39, Enemy.current_health := 39, Enemy.attack := 10,
                Enemy.defense := 6, gold_reward := 32, xp_reward := 26\<rparr>
   \<and> create_enemy ''Zombats'' ''Gorgon'' ''Nightmare'' = Loogies"
  using create_enemy_unknown_archetype
          [where etype = "''Gorgon''" and pick = "''Zombats''" and difficulty = "''Hard''"]
        create_enemy_unknown_archetype
          [where etype = "''Gorgon''" and pick = "''Zombats''" and difficulty = "''Nightmare''"]
  by (simp add: py_int_def Loogies_eq)

section \<open>Limb damage\<close>

lemma take_limb_damage_broken:
  "map_of (limbs e) l = Some limb \<Longrightarrow> broken limb \<Longrightarrow>
   take_limb_damage e l d = ((False, AlreadyBroken l), e)"
  by (simp add: take_limb_damage_def)

text \<open>
  C4 as claimed: the penalty of a broken arm is the attack times 0.8. The source stores
  \<open>int(self.attack * 0.8)\<close>. A Loogies enemy has attack 8; a limb attack of 20 breaks its left
  arm (health 12) and leaves attack 6, not 6.4; breaking the right arm as well leaves 4, not
  5.12.
\<close>

theorem take_limb_damage_penalty_counterexample:
  "Enemy.attack Loogies = 8
   \<and> Enemy.attack (snd (take_limb_damage Loogies ''left_arm'' 20)) = 6
   \<and> real_of_int (Enemy.attack (snd (take_limb_damage Loogies ''left_arm'' 20)))
       \<noteq> real_of_int (Enemy.attack Loogies) * 0.8
   \<and> Enemy.attack (snd (take_limb_damage (snd (take_limb_damage Loogies ''left_arm'' 20))
                           ''right_arm'' 20)) = 4"
  by (simp add: Loogies_eq take_limb_damage_def Let_def str_in_limb_names py_int_def)

text \<open>
  C4, amended. A limb breaks only once. On a limb that is already broken (and on a name that
  is no limb of the enemy) \<open>take_limb_damage\<close> returns failure and leaves the limb and the whole
  enemy unchanged. On a limb that is not broken it subtracts the amount; when that leaves the
  limb's health at 0 or below, the health becomes 0, the limb is marked broken, and the penalty
  is applied: the attack becomes \<open>int(attack * 0.8)\<close> for an arm, the speed becomes
  \<open>int(speed * 0.8)\<close> for a leg, the product cut to an integer toward zero. Every later call on
  that limb fails and changes nothing, so the penalty is applied once for the limb.
\<close>

theorem take_limb_damage_breaks_once:
  "(map_of (limbs e) l = None \<longrightarrow> take_limb_damage e l d = ((False, InvalidLimb), e))
   \<and> (map_of (limbs e) l = Some limb \<longrightarrow>
     (broken limb \<longrightarrow> take_limb_damage e l d = ((False, AlreadyBroken l), e))
   \<and> (\<not> broken limb \<and> health limb - d > 0 \<longrightarrow>
        take_limb_damage e l d =
          ((True, LimbTakesDamage l d),
           e\<lparr>limbs := AList.update l (limb\<lparr>health := health limb - d\<rparr>) (limbs e)\<rparr>))
   \<and> (\<not> broken limb \<and> health limb - d \<le> 0 \<longrightarrow>
        fst (fst (take_limb_damage e l d)) = True
        \<and> snd (take_limb_damage e l d) =
            e\<lparr>limbs := AList.update l (limb\<lparr>health := 0, broken := True\<rparr>) (limbs e),
              Enemy.attack := (if str_in ''arm'' l then py_int (of_int (Enemy.attack e) * 0.8)
                               else Enemy.attack e),
              Enemy.speed := (if \<not> str_in ''arm'' l \<and> str_in ''leg'' l
                                then py_int (of_int (Enemy.speed e) * 0.8)
                              else Enemy.speed e)\<rparr>
        \<and> take_limb_damage (snd (take_limb_damage e l d)) l d'
            = ((False, AlreadyBroken l), snd (take_limb_damage e l d))))"
proof (intro impI conjI)
  { assume "map_of (limbs e) l = None"
    then show "take_limb_damage e l d = ((False, InvalidLimb), e)"
      by (simp add: take_limb_damage_def) }
  assume l: "map_of (limbs e) l = Some limb"
  { assume "broken limb"
    with l show "take_limb_damage e l d = ((False, AlreadyBroken l), e)"
      by (rule take_limb_damage_broken) }
  { assume "\<not> broken limb \<and> health limb - d > 0"
    with l show "take_limb_damage e l d =
          ((True, LimbTakesDamage l d),
           e\<lparr>limbs := AList.update l (limb\<lparr>health := health limb - d\<rparr>) (limbs e)\<rparr>)"
      by (simp add: take_limb_damage_def Let_def) }
  { assume a: "\<not> broken limb \<and> health limb - d \<le> 0"
    with l show "fst (fst (take_limb_damage e l d)) = True"
      by (simp add: take_limb_damage_def Let_def)
    from l a show s: "snd (take_limb_damage e l d) =
            e\<lparr>limbs := AList.update l (limb\<lparr>health := 0, broken := True\<rparr>) (limbs e),
              Enemy.attack := (if str_in ''arm'' l then py_int (of_int (Enemy.attack e) * 0.8)
                               else Enemy.attack e),
              Enemy.speed := (if \<not> str_in ''arm'' l \<and> str_in ''leg'' l
                                then py_int (of_int (Enemy.speed e) * 0.8)
                              else Enemy.speed e)\<rparr>"
      by (simp add: take_limb_damage_def Let_def)
    have "map_of (limbs (snd (take_limb_damage e l d))) l
            = Some (limb\<lparr>health := 0, broken := True\<rparr>)"
      by (simp add: s update_conv')
    then show "take_limb_damage (snd (take_limb_damage e l d)) l d'
            = ((False, AlreadyBroken l), snd (take_limb_damage e l d))"
      by (rule take_limb_damage_broken) simp }
qed

theorem take_limb_damage_breaks_once_witness:
  "take_limb_damage Loogies ''left_arm'' 5
     = ((True, LimbTakesDamage ''left_arm'' 5),
        Loogies\<lparr>limbs := AList.update ''left_arm''
                   \<lparr>health = 7, limb_max_health = 12, broken = False\<rparr> (limbs Loogies)\<rparr>)
   \<and> snd (take_limb_damage Loogies ''left_arm'' 20)
       = Loogies\<lparr>limbs := AList.update ''left_arm''
                    \<lparr>health = 0, limb_max_health = 12, broken = True\<rparr> (limbs Loogies),
                  Enemy.attack := 6\<rparr>
   \<and> snd (take_limb_damage Loogies ''right_leg'' 9)
       = Loogies\<lparr>limbs := AList.update ''right_leg''
                    \<lparr>health = 0, limb_max_health = 9, broken = True\<rparr> (limbs Loogies),
                  Enemy.speed := 8\<rparr>
   \<and> take_limb_damage (snd (take_limb_damage Loogies ''left_arm'' 20)) ''left_arm'' 3
       = ((False, AlreadyBroken ''left_arm''), snd (take_limb_damage Loogies ''left_arm'' 20))
   \<and> take_limb_damage Loogies ''tail'' 5 = ((False, InvalidLimb), Loogies)"
  using take_limb_damage_breaks_once [where e = Loogies and l = "''tail''" and d = 5]
        take_limb_damage_breaks_once
          [where e = Loogies and l = "''left_arm''" and d = 5
             and limb = "\<lparr>health = 12, limb_max_health = 12, broken = False\<rparr>"]
        take_limb_damage_breaks_once
          [where e = Loogies and l = "''left_arm''" and d = 20 and d' = 3
             and limb = "\<lparr>health = 12, limb_max_health = 12, broken = False\<rparr>"]
        take_limb_damage_breaks_once
          [where e = Loogies and l = "''right_leg''" and d = 9
             and limb = "\<lparr>health = 9, limb_max_health = 9, broken = False\<rparr>"]
  by (simp add: Loogies_eq str_in_limb_names py_int_def take_limb_damage_def Let_def)

section \<open>The AI state at low health\<close>




section \<open>The defense boost of a defending enemy\<close>

lemma take_limb_damage_defense:
  "Enemy.defense (snd (take_limb_damage e l d)) = Enemy.defense e
   \<and> temp_defense_boost (snd (take_limb_damage e l d)) = temp_defense_boost e"
  by (simp add: take_limb_damage_def Let_def split: option.split)

text \<open>
  Without the attribute \<open>_temp_defense_boost\<close>, \<open>take_damage\<close> leaves the defense as it is and
  does not create the attribute; \<open>defend\<close> adds 5 and does not create it either. No line of
  the source sets the attribute, and every constructor leaves it absent.
\<close>

lemma Enemy_take_damage_keeps_boost:
  "\<not> temp_defense_boost e \<Longrightarrow>
   Enemy.defense (snd (Enemy_take_damage e d l)) = Enemy.defense e
   \<and> \<not> temp_defense_boost (snd (Enemy_take_damage e d l))"
  by (simp add: Enemy_take_damage_def Let_def take_limb_damage_defense)

lemma execute_action_defend:
  "Enemy.defense (fst (snd (execute_action e ''defend'' p u a))) = Enemy.defense e + 5
   \<and> temp_defense_boost (fst (snd (execute_action e ''defend'' p u a))) = temp_defense_boost e"
  by (simp add: execute_action_def Let_def)

lemma defend_then_damage:
  "\<not> temp_defense_boost e \<Longrightarrow>
   Enemy.defense (snd (Enemy_take_damage (fst (snd (execute_action e ''defend'' p u a))) d l))
     = Enemy.defense e + 5"
  by (simp add: Enemy_take_damage_keeps_boost execute_action_defend)

text \<open>
  C7. The claim: the +5 defense of \<open>defend\<close> is temporary and is removed later. The removal in
  \<open>take_damage\<close> is guarded by an attribute that is never set, so it never runs: a Loogies
  enemy (defense 5) that defends and is then hit has defense 10, and after defending and
  being hit once more it has defense 15.
\<close>

theorem defend_boost_accumulates:
  "Enemy.defense Loogies = 5 \<and> Enemy.defense defended_once = 10
   \<and> Enemy.defense defended_twice = 15"
proof -
  have a: "\<not> temp_defense_boost Loogies" by (simp add: Loogies_eq)
  have 1: "Enemy.defense defended_once = Enemy.defense Loogies + 5"
    unfolding defended_once_def using a by (rule defend_then_damage)
  have b: "\<not> temp_defense_boost defended_once"
    unfolding defended_once_def using a
    by (simp add: Enemy_take_damage_keeps_boost execute_action_defend)
  have 2: "Enemy.defense defended_twice = Enemy.defense defended_once + 5"
    unfolding defended_twice_def using b by (rule defend_then_damage)
  show ?thesis using 1 2 by (simp add: Loogies_eq)
qed

section \<open>Combo scoring\<close>




section \<open>Victory rewards\<close>

text \<open>
  The part of the reward scaling that the source and its description agree on: full health
  gives the health bonus 1.5, whatever else holds.
\<close>

lemma health_bonus_full_health:
  "PowerRanger.current_health p = of_int (PowerRanger.max_health p) \<Longrightarrow> health_bonus p = 1.5"
  by (simp add: health_bonus_def)

lemma boss_rewards: "gold_reward MetalAlice = 100" "xp_reward MetalAlice = 75"
  by (simp_all add: MetalAlice_def Enemy_init_def apply_type_stats_def ENEMY_TYPES_def
      BOSS_ENEMIES_def add_boss_abilities_def)

text \<open>
  The rounding of the float products shows in the rewards: at 90 of 100 health (bonus 1.2)
  and four perfect-combo entries (bonus 1.4) Metal Alice's 75 xp become 125, since the float
  product lies just below 126, and her 100 gold become 168.
\<close>

lemma victory_rewards_float_rounding:
  "victory_rewards bruised_player MetalAlice
     [perfect_combo_entry, perfect_combo_entry, perfect_combo_entry, perfect_combo_entry]
   = (168, 125)"
proof -
  have bp: "PowerRanger.max_health bruised_player = 100"
    "PowerRanger.current_health bruised_player = 90"
    by (simp_all add: bruised_player_def new_player_eq)
  have "float_mul (float_of_int 100) (fl 0.8) = fl (100 * (7205759403792794 / 2 ^ 53))"
    by (simp only: float_mul_def float_of_int_def of_int_numeral fl_exact fl_literals)
  also have "\<dots> = 80"
    using fl_eval [of "100 * (7205759403792794 / 2 ^ 53)" 46]
    by (simp add: round_half_even_def Let_def)
  finally have thr: "float_mul (float_of_int 100) (fl 0.8) = 80" .
  have "health_bonus bruised_player = fl 1.2"
    unfolding health_bonus_def bp thr by simp
  then have hb: "health_bonus bruised_player = 5404319552844595 / 2 ^ 52"
    by (simp only: fl_literals)
  have cc: "combo_count [perfect_combo_entry, perfect_combo_entry, perfect_combo_entry,
                         perfect_combo_entry] = 4"
    by (simp add: combo_count_def str_in_combo_entries)
  have "float_add 1 (float_mul (float_of_int (int 4)) (fl 0.1))
          = fl (1 + fl (4 * (7205759403792794 / 2 ^ 56)))"
    by (simp only: float_add_def float_mul_def float_of_int_def of_nat_numeral of_int_numeral
        fl_exact fl_literals)
  also have "fl (4 * (7205759403792794 / 2 ^ 56)) = 7205759403792794 / 2 ^ 54"
    using fl_eval [of "4 * (7205759403792794 / 2 ^ 56)" 54]
    by (simp add: round_half_even_def Let_def)
  also have "fl (1 + 7205759403792794 / 2 ^ 54) = 6305039478318694 / 2 ^ 52"
    using fl_eval [of "1 + 7205759403792794 / 2 ^ 54" 52]
    by (simp add: round_half_even_def Let_def)
  finally have v: "float_add 1 (float_mul (float_of_int (int 4)) (fl 0.1))
                     = 6305039478318694 / 2 ^ 52" .
  have cb: "combo_bonus [perfect_combo_entry, perfect_combo_entry, perfect_combo_entry,
                         perfect_combo_entry] = 6305039478318694 / 2 ^ 52"
    unfolding combo_bonus_def cc v by simp
  have "float_mul (float_mul (float_of_int 100) (5404319552844595 / 2 ^ 52))
                  (6305039478318694 / 2 ^ 52)
          = fl (fl (100 * (5404319552844595 / 2 ^ 52)) * (6305039478318694 / 2 ^ 52))"
    by (simp only: float_mul_def float_of_int_def of_int_numeral fl_exact)
  also have "fl (100 * (5404319552844595 / 2 ^ 52)) = 120"
    using fl_eval [of "100 * (5404319552844595 / 2 ^ 52)" 46]
    by (simp add: round_half_even_def Let_def)
  also have "fl (120 * (6305039478318694 / 2 ^ 52)) = 168"
    using fl_eval [of "120 * (6305039478318694 / 2 ^ 52)" 45]
    by (simp add: round_half_even_def Let_def)
  finally have g: "float_mul (float_mul (float_of_int 100) (5404319552844595 / 2 ^ 52))
                             (6305039478318694 / 2 ^ 52) = 168" .
  have "float_mul (float_mul (float_of_int 75) (5404319552844595 / 2 ^ 52))
                  (6305039478318694 / 2 ^ 52)
          = fl (fl (75 * (5404319552844595 / 2 ^ 52)) * (6305039478318694 / 2 ^ 52))"
    by (simp only: float_mul_def float_of_int_def of_int_numeral fl_exact)
  also have "fl (75 * (5404319552844595 / 2 ^ 52)) = 90"
    using fl_eval [of "75 * (5404319552844595 / 2 ^ 52)" 46]
    by (simp add: round_half_even_def Let_def)
  also have "fl (90 * (6305039478318694 / 2 ^ 52)) = 8866461766385663 / 2 ^ 46"
    using fl_eval [of "90 * (6305039478318694 / 2 ^ 52)" 46]
    by (simp add: round_half_even_def Let_def)
  finally have x: "float_mul (float_mul (float_of_int 75) (5404319552844595 / 2 ^ 52))
                             (6305039478318694 / 2 ^ 52) = 8866461766385663 / 2 ^ 46" .
  have "victory_rewards bruised_player MetalAlice
          [perfect_combo_entry, perfect_combo_entry, perfect_combo_entry, perfect_combo_entry]
        = (py_int 168, py_int (8866461766385663 / 2 ^ 46))"
    by (simp only: victory_rewards_def Let_def boss_rewards hb cb g x)
  also have "\<dots> = (168, 125)" by (simp add: py_int_def)
  finally show ?thesis .
qed

text \<open>
  C8. The claim: the combo bonus is 1 + 0.1 for each combo-related entry of the battle log, and
  the rewards are the base rewards times the health bonus times the combo bonus. The source
  computes the bonus under the comment "Bonus for combo usage" and counts the entries with the
  test \<open>"COMBO" in log\<close>, which looks at capitals; of the entries that \<open>_execute_combo_attack\<close>
  writes only the one of a perfect combo passes it, the others spell "combo" or "Combo". A new
  player (attack 20, full health, bonus 1.5) who beats a Loogies (30 health, 25 gold, 20 xp)
  with a good combo has one combo entry in the log and gets the combo bonus 1.0: 37 gold
  (\<open>int\<close> of 37.5) and 30 xp, where 1.1 would give 41 and 33.
\<close>

theorem victory_rewards_good_combo_uncounted:
  "health_bonus new_player = 1.5
   \<and> combo_count [good_combo_entry] = 0
   \<and> combo_bonus [good_combo_entry] = 1
   \<and> victory_rewards new_player Loogies [good_combo_entry] = (37, 30)"
proof -
  have hb: "health_bonus new_player = 1.5"
    by (rule health_bonus_full_health) (simp add: new_player_eq)
  have cc: "combo_count [good_combo_entry] = 0"
    by (simp add: combo_count_def str_in_combo_entries)
  have cb: "combo_bonus [good_combo_entry] = 1"
    by (simp add: combo_bonus_def cc)
  have lr: "gold_reward Loogies = 25" "xp_reward Loogies = 20"
    by (simp_all add: Loogies_eq)
  have "float_mul (float_mul (float_of_int 25) 1.5) 1 = fl (fl (25 * 1.5) * 1)"
    by (simp only: float_mul_def float_of_int_def of_int_numeral fl_exact)
  also have "fl (25 * 1.5) = 37.5"
    using fl_eval [of "25 * 1.5" 47] by (simp add: round_half_even_def Let_def)
  also have "fl (37.5 * 1) = 37.5"
    using fl_eval [of "37.5 * 1" 47] by (simp add: round_half_even_def Let_def)
  finally have g: "float_mul (float_mul (float_of_int 25) 1.5) 1 = 37.5" .
  have "float_mul (float_mul (float_of_int 20) 1.5) 1 = fl (fl (20 * 1.5) * 1)"
    by (simp only: float_mul_def float_of_int_def of_int_numeral fl_exact)
  also have "fl (20 * 1.5) = 30"
    using fl_eval [of "20 * 1.5" 48] by (simp add: round_half_even_def Let_def)
  also have "fl (30 * 1) = 30"
    using fl_eval [of "30 * 1" 48] by (simp add: round_half_even_def Let_def)
  finally have x: "float_mul (float_mul (float_of_int 20) 1.5) 1 = 30" .
  have "victory_rewards new_player Loogies [good_combo_entry] = (py_int 37.5, py_int 30)"
    by (simp only: victory_rewards_def Let_def lr hb cb g x)
  also have "\<dots> = (37, 30)" by (simp add: py_int_def)
  finally have "victory_rewards new_player Loogies [good_combo_entry] = (37, 30)" .
  with hb cc cb show ?thesis by (simp only: simp_thms)
qed

text \<open>
  With the entry of a perfect combo in place of the good one the same battle pays the bonus:
  41 gold and 33 xp.
\<close>

lemma victory_rewards_perfect_combo:
  "victory_rewards new_player Loogies [perfect_combo_entry] = (41, 33)"
proof -
  have hb: "health_bonus new_player = 1.5"
    by (rule health_bonus_full_health) (simp add: new_player_eq)
  have lr: "gold_reward Loogies = 25" "xp_reward Loogies = 20"
    by (simp_all add: Loogies_eq)
  have cc: "combo_count [perfect_combo_entry] = 1"
    by (simp add: combo_count_def str_in_combo_entries)
  have one: "fl 1 = 1" using fl_eval [of 1 52] by (simp add: round_half_even_def Let_def)
  have "float_add 1 (float_mul (float_of_int (int 1)) (fl 0.1))
          = fl (1 + fl (1 * (7205759403792794 / 2 ^ 56)))"
    by (simp only: float_add_def float_mul_def float_of_int_def of_nat_1 of_int_1 one
        fl_literals)
  also have "fl (1 * (7205759403792794 / 2 ^ 56)) = 7205759403792794 / 2 ^ 56"
    using fl_eval [of "1 * (7205759403792794 / 2 ^ 56)" 56]
    by (simp add: round_half_even_def Let_def)
  also have "fl (1 + 7205759403792794 / 2 ^ 56) = 4953959590107546 / 2 ^ 52"
    using fl_eval [of "1 + 7205759403792794 / 2 ^ 56" 52]
    by (simp add: round_half_even_def Let_def)
  finally have v: "float_add 1 (float_mul (float_of_int (int 1)) (fl 0.1))
                     = 4953959590107546 / 2 ^ 52" .
  have cb: "combo_bonus [perfect_combo_entry] = 4953959590107546 / 2 ^ 52"
    unfolding combo_bonus_def cc v by simp
  have "float_mul (float_mul (float_of_int 25) 1.5) (4953959590107546 / 2 ^ 52)
          = fl (fl (25 * 1.5) * (4953959590107546 / 2 ^ 52))"
    by (simp only: float_mul_def float_of_int_def of_int_numeral fl_exact)
  also have "fl (25 * 1.5) = 37.5"
    using fl_eval [of "25 * 1.5" 47] by (simp add: round_half_even_def Let_def)
  also have "fl (37.5 * (4953959590107546 / 2 ^ 52)) = 41.25"
    using fl_eval [of "37.5 * (4953959590107546 / 2 ^ 52)" 47]
    by (simp add: round_half_even_def Let_def)
  finally have g: "float_mul (float_mul (float_of_int 25) 1.5) (4953959590107546 / 2 ^ 52)
                     = 41.25" .
  have "float_mul (float_mul (float_of_int 20) 1.5) (4953959590107546 / 2 ^ 52)
          = fl (fl (20 * 1.5) * (4953959590107546 / 2 ^ 52))"
    by (simp only: float_mul_def float_of_int_def of_int_numeral fl_exact)
  also have "fl (20 * 1.5) = 30"
    using fl_eval [of "20 * 1.5" 48] by (simp add: round_half_even_def Let_def)
  also have "fl (30 * (4953959590107546 / 2 ^ 52)) = 33"
    using fl_eval [of "30 * (4953959590107546 / 2 ^ 52)" 47]
    by (simp add: round_half_even_def Let_def)
  finally have x: "float_mul (float_mul (float_of_int 20) 1.5) (4953959590107546 / 2 ^ 52)
                     = 33" .
  have "victory_rewards new_player Loogies [perfect_combo_entry] = (py_int 41.25, py_int 33)"
    by (simp only: victory_rewards_def Let_def lr hb cb g x)
  also have "\<dots> = (41, 33)" by (simp add: py_int_def)
  finally show ?thesis .
qed

end
